theory Spec2Isabelle
  imports Main
begin

section \<open>The chat controller\<close>

text \<open>
  The program is \<^verbatim>\<open>server/src/controller/Controller.js\<close>: a class whose methods
  validate their arguments, call the data access object \<^verbatim>\<open>ChatDAO\<close> and, for the
  login operations, compare or compute a login expiry with the \<^verbatim>\<open>moment\<close> library.
  Every method is \<^verbatim>\<open>async\<close>, but each one awaits its calls one after the other, so a
  method is modelled as a function from the state of the data access object before the
  call to the outcome of the call and the state after it.
\<close>

subsection \<open>Data\<close>

text \<open>
  The value of a user's \<^verbatim>\<open>loggedInUntil\<close> field. The specification calls the field
  "nullable/absent": in JavaScript that is \<^verbatim>\<open>null\<close> or \<^verbatim>\<open>undefined\<close>. Otherwise it
  is a valid \<^verbatim>\<open>Date\<close>, which is what \<^verbatim>\<open>setUsersStatusToLoggedIn\<close> assigns; it is
  given here by its milliseconds since the epoch.
\<close>

datatype timestamp = Undefined | Null | Date int

record user =
  username :: string
  loggedInUntil :: timestamp

record msg =
  msgId :: int
  body :: string
  author :: user

text \<open>
  What a caller may pass as the author of a message: an instance of \<^verbatim>\<open>UserDTO\<close>, or
  some object that is not one.
\<close>

datatype jsobject = UserDTO user | NotUserDTO

text \<open>
  A failed validation is an exception in the source; it carries the name of the
  offending parameter, which the controller hands to every validator.
\<close>

datatype error = ValidationError string

subsection \<open>The moment library\<close>

text \<open>
  A moment is a point in time in milliseconds since the epoch, or the invalid moment
  (\<open>None\<close>). These are the library's documented rules for the three calls the
  controller makes:
  \<^item> \<^verbatim>\<open>moment(x)\<close> is the invalid moment for \<^verbatim>\<open>null\<close>, the current time for
    \<^verbatim>\<open>undefined\<close> (the same as \<^verbatim>\<open>moment()\<close>) and the time of the date for a
    \<^verbatim>\<open>Date\<close>; the first argument of \<open>moment\<close> below is what the wall clock shows
    should the call read it;
  \<^item> \<^verbatim>\<open>a.isBefore(b)\<close> is false when either moment is invalid, and otherwise
    compares the milliseconds with \<open><\<close>;
  \<^item> \<^verbatim>\<open>moment.duration({hours: h})\<close> has the numeric value of \<open>h\<close> hours in
    milliseconds, which is what \<^verbatim>\<open>+\<close> adds.
  The call always returns an object, so the source's test \<^verbatim>\<open>loginExpires === null\<close>
  is false for every moment: \<open>strictly_null\<close>.
\<close>

type_synonym moment = "int option"

fun moment :: "int \<Rightarrow> timestamp \<Rightarrow> moment" where
  "moment clock Undefined = Some clock"
| "moment clock Null = None"
| "moment clock (Date d) = Some d"

fun isBefore :: "moment \<Rightarrow> moment \<Rightarrow> bool" where
  "isBefore (Some a) (Some b) = (a < b)"
| "isBefore _ _ = False"

definition strictly_null :: "moment \<Rightarrow> bool" where
  "strictly_null m = False"

definition duration_hours :: "int \<Rightarrow> int" where
  "duration_hours h = h * 60 * 60 * 1000"

subsection \<open>Validators\<close>

text \<open>
  The controller imports its validators from \<^verbatim>\<open>util/Validators.js\<close>, which lies
  outside the file verified here. Each validator either returns normally or throws;
  \<open>Inl\<close> is the throw. Arguments have the types of the
  controller's interface: a username and a message are strings, a message id is an
  integer.
\<close>

text \<open>Modelled from the spec: \<^verbatim>\<open>Validators.isNonZeroLengthString\<close> is missing; the spec
  asks for a non-empty string and names an empty one a validation failure.\<close>

definition isNonZeroLengthString :: "string \<Rightarrow> string \<Rightarrow> error + unit" where
  "isNonZeroLengthString v varName =
     (if v \<noteq> [] then Inr () else Inl (ValidationError varName))"

text \<open>Modelled from the spec: the character class behind "alphanumeric" is missing; it is
  taken to be the ASCII digits and letters.\<close>

definition alnum :: "char \<Rightarrow> bool" where
  "alnum c =
     (let n = (of_char c :: nat)
      in (48 \<le> n \<and> n \<le> 57) \<or> (65 \<le> n \<and> n \<le> 90) \<or> (97 \<le> n \<and> n \<le> 122))"

text \<open>Modelled from the spec: \<^verbatim>\<open>Validators.isAlnumString\<close> is missing; the spec names a
  non-alphanumeric username a validation failure.\<close>

definition isAlnumString :: "string \<Rightarrow> string \<Rightarrow> error + unit" where
  "isAlnumString v varName =
     (if list_all alnum v then Inr () else Inl (ValidationError varName))"

text \<open>Modelled from the spec: \<^verbatim>\<open>Validators.isPositiveInteger\<close> is missing; the spec names
  a message id that is not a positive integer a validation failure.\<close>

definition isPositiveInteger :: "int \<Rightarrow> string \<Rightarrow> error + unit" where
  "isPositiveInteger v varName =
     (if 0 < v then Inr () else Inl (ValidationError varName))"

text \<open>Modelled from the spec: \<^verbatim>\<open>Validators.isInstanceOf\<close> is missing, and the controller
  only calls it with the class \<^verbatim>\<open>UserDTO\<close>; the spec names an author of the wrong type
  a validation failure. On success the model hands back the instance it has seen.\<close>

definition isInstanceOf :: "jsobject \<Rightarrow> string \<Rightarrow> string \<Rightarrow> error + user" where
  "isInstanceOf v varName className =
     (case v of UserDTO u \<Rightarrow> Inr u | NotUserDTO \<Rightarrow> Inl (ValidationError varName))"

subsection \<open>The data access object\<close>

text \<open>
  \<^verbatim>\<open>integration/ChatDAO.js\<close> lies outside the file verified here as well. Its state
  is the user table, the message table in insertion order and the last message id the store has
  assigned. To make "which calls reached the data access object" a property of the
  model, the state also records every call in \<open>calls\<close>, oldest first; the log is
  bookkeeping of the model, not data of the store.

  The modelled store answers every call. A failure of the database would surface in the
  controller as an exception it passes on unchanged; such failures are outside this
  model, so the only error value is a failed validation.
\<close>

datatype dao_call =
    FindUserByUsername string
  | UpdateUser user
  | CreateMsg string user
  | FindMsgById int
  | FindAllMsgs
  | DeleteMsg int

record chatDAO =
  users :: "user list"
  msgs :: "msg list"
  lastId :: nat
  calls :: "dao_call list"

text \<open>The calls that write to the store.\<close>

fun mutating :: "dao_call \<Rightarrow> bool" where
  "mutating (FindUserByUsername _) = False"
| "mutating (UpdateUser _) = True"
| "mutating (CreateMsg _ _) = True"
| "mutating (FindMsgById _) = False"
| "mutating FindAllMsgs = False"
| "mutating (DeleteMsg _) = True"

text \<open>What the store holds, without the call log.\<close>

definition stored :: "chatDAO \<Rightarrow> user list \<times> msg list \<times> nat" where
  "stored dao = (users dao, msgs dao, lastId dao)"

definition logged :: "dao_call \<Rightarrow> chatDAO \<Rightarrow> chatDAO" where
  "logged c dao = dao\<lparr>calls := calls dao @ [c]\<rparr>"

text \<open>Modelled from the spec: \<^verbatim>\<open>ChatDAO.findUserByUsername\<close> is missing; the spec gives
  it the result "list of User" and identifies a user by its username.\<close>

definition dao_findUserByUsername :: "chatDAO \<Rightarrow> string \<Rightarrow> user list \<times> chatDAO" where
  "dao_findUserByUsername dao name =
     (filter (\<lambda>u. username u = name) (users dao), logged (FindUserByUsername name) dao)"

text \<open>Modelled from the spec: \<^verbatim>\<open>ChatDAO.updateUser\<close> is missing; the spec has it persist
  the user it is given, and a user is identified by its username.\<close>

definition dao_updateUser :: "chatDAO \<Rightarrow> user \<Rightarrow> chatDAO" where
  "dao_updateUser dao u =
     logged (UpdateUser u)
       (dao\<lparr>users := map (\<lambda>x. if username x = username u then u else x) (users dao)\<rparr>)"

text \<open>Modelled from the spec: \<^verbatim>\<open>ChatDAO.createMsg\<close> is missing; the spec has the store
  assign a positive integer id that identifies the message, and return the created
  message with its body and author. The model counts ids upwards.\<close>

definition dao_createMsg :: "chatDAO \<Rightarrow> string \<Rightarrow> user \<Rightarrow> msg \<times> chatDAO" where
  "dao_createMsg dao txt a =
     (let m = \<lparr>msgId = int (Suc (lastId dao)), body = txt, author = a\<rparr>
      in (m, logged (CreateMsg txt a)
               (dao\<lparr>msgs := msgs dao @ [m], lastId := Suc (lastId dao)\<rparr>)))"

text \<open>Modelled from the spec: \<^verbatim>\<open>ChatDAO.findMsgById\<close> is missing; the spec gives it the
  result "Message | null".\<close>

definition dao_findMsgById :: "chatDAO \<Rightarrow> int \<Rightarrow> msg option \<times> chatDAO" where
  "dao_findMsgById dao i =
     (find (\<lambda>m. msgId m = i) (msgs dao), logged (FindMsgById i) dao)"

text \<open>Modelled from the spec: \<^verbatim>\<open>ChatDAO.findAllMsgs\<close> is missing; the spec gives it the
  result "list of Message" and recommends insertion order.\<close>

definition dao_findAllMsgs :: "chatDAO \<Rightarrow> msg list \<times> chatDAO" where
  "dao_findAllMsgs dao = (msgs dao, logged FindAllMsgs dao)"

text \<open>Modelled from the spec: \<^verbatim>\<open>ChatDAO.deleteMsg\<close> is missing; the spec has it delete
  the message if present and report no error if absent.\<close>

definition dao_deleteMsg :: "chatDAO \<Rightarrow> int \<Rightarrow> chatDAO" where
  "dao_deleteMsg dao i =
     logged (DeleteMsg i) (dao\<lparr>msgs := filter (\<lambda>m. msgId m \<noteq> i) (msgs dao)\<rparr>)"

subsection \<open>The controller\<close>

text \<open>
  \<^verbatim>\<open>setUsersStatusToLoggedIn(user)\<close> assigns to the field of the object it is given and
  passes the object to \<^verbatim>\<open>updateUser\<close>. The caller keeps a reference to the same
  object, so the model returns the changed user along with the new state. \<open>clock\<close>
  is what \<^verbatim>\<open>moment()\<close> reads off the wall clock.
\<close>

definition setUsersStatusToLoggedIn :: "int \<Rightarrow> chatDAO \<Rightarrow> user \<Rightarrow> user \<times> chatDAO" where
  "setUsersStatusToLoggedIn clock dao u =
     (let periodToStayLoggedIn = duration_hours 24;
          u' = u\<lparr>loggedInUntil := Date (clock + periodToStayLoggedIn)\<rparr>
      in (u', dao_updateUser dao u'))"

text \<open>
  \<^verbatim>\<open>login(username)\<close>. \<open>Inr None\<close> is the result \<^verbatim>\<open>null\<close>. \<^verbatim>\<open>loggedInUser\<close>
  and \<^verbatim>\<open>users[0]\<close> are one object, so the user returned is the one
  \<open>setUsersStatusToLoggedIn\<close> has changed.
\<close>

definition login :: "int \<Rightarrow> chatDAO \<Rightarrow> string \<Rightarrow> (error + user option) \<times> chatDAO" where
  "login clock dao name =
     (case isNonZeroLengthString name ''username'' of
        Inl e \<Rightarrow> (Inl e, dao)
      | Inr _ \<Rightarrow>
     (case isAlnumString name ''username'' of
        Inl e \<Rightarrow> (Inl e, dao)
      | Inr _ \<Rightarrow>
     (case dao_findUserByUsername dao name of
        ([], dao1) \<Rightarrow> (Inr None, dao1)
      | (u # _, dao1) \<Rightarrow>
          (case setUsersStatusToLoggedIn clock dao1 u of
             (loggedInUser, dao2) \<Rightarrow> (Inr (Some loggedInUser), dao2)))))"

text \<open>
  \<^verbatim>\<open>isLoggedIn(username)\<close>. \<open>clock0\<close> is what the wall clock shows when
  \<^verbatim>\<open>moment(loggedInUser.loggedInUntil)\<close> runs (the call reads it only for
  \<^verbatim>\<open>undefined\<close>), \<open>clock1\<close> what it shows at \<^verbatim>\<open>moment()\<close> two lines later.
\<close>

definition isLoggedIn ::
  "int \<Rightarrow> int \<Rightarrow> chatDAO \<Rightarrow> string \<Rightarrow> (error + user option) \<times> chatDAO" where
  "isLoggedIn clock0 clock1 dao name =
     (case isNonZeroLengthString name ''username'' of
        Inl e \<Rightarrow> (Inl e, dao)
      | Inr _ \<Rightarrow>
     (case isAlnumString name ''username'' of
        Inl e \<Rightarrow> (Inl e, dao)
      | Inr _ \<Rightarrow>
     (case dao_findUserByUsername dao name of
        ([], dao1) \<Rightarrow> (Inr None, dao1)
      | (loggedInUser # _, dao1) \<Rightarrow>
          (let loginExpires = moment clock0 (loggedInUntil loggedInUser)
           in if strictly_null loginExpires then (Inr None, dao1)
              else (let now = moment clock1 Undefined
                    in if isBefore loginExpires now then (Inr None, dao1)
                       else (Inr (Some loggedInUser), dao1))))))"

text \<open>\<^verbatim>\<open>addMsg(msg, author)\<close>.\<close>

definition addMsg :: "chatDAO \<Rightarrow> string \<Rightarrow> jsobject \<Rightarrow> (error + msg) \<times> chatDAO" where
  "addMsg dao m a =
     (case isNonZeroLengthString m ''msg'' of
        Inl e \<Rightarrow> (Inl e, dao)
      | Inr _ \<Rightarrow>
     (case isInstanceOf a ''user'' ''UserDTO'' of
        Inl e \<Rightarrow> (Inl e, dao)
      | Inr u \<Rightarrow>
     (case dao_createMsg dao m u of (created, dao1) \<Rightarrow> (Inr created, dao1))))"

text \<open>\<^verbatim>\<open>findMsg(msgId)\<close>. \<open>Inr None\<close> is the result \<^verbatim>\<open>null\<close>.\<close>

definition findMsg :: "chatDAO \<Rightarrow> int \<Rightarrow> (error + msg option) \<times> chatDAO" where
  "findMsg dao i =
     (case isPositiveInteger i ''msgId'' of
        Inl e \<Rightarrow> (Inl e, dao)
      | Inr _ \<Rightarrow> (case dao_findMsgById dao i of (found, dao1) \<Rightarrow> (Inr found, dao1)))"

text \<open>\<^verbatim>\<open>findAllMsgs()\<close>.\<close>

definition findAllMsgs :: "chatDAO \<Rightarrow> (error + msg list) \<times> chatDAO" where
  "findAllMsgs dao = (case dao_findAllMsgs dao of (all, dao1) \<Rightarrow> (Inr all, dao1))"

text \<open>\<^verbatim>\<open>deleteMsg(msgId)\<close>.\<close>

definition deleteMsg :: "chatDAO \<Rightarrow> int \<Rightarrow> (error + unit) \<times> chatDAO" where
  "deleteMsg dao i =
     (case isPositiveInteger i ''msgId'' of
        Inl e \<Rightarrow> (Inl e, dao)
      | Inr _ \<Rightarrow> (Inr (), dao_deleteMsg dao i))"

subsection \<open>Sequences of calls, the store's invariant, example stores\<close>

text \<open>
  \<open>addMsgs\<close> calls \<open>addMsg\<close> once for each pair of the list, in order, and collects
  the outcomes.
\<close>

fun addMsgs :: "chatDAO \<Rightarrow> (string \<times> jsobject) list \<Rightarrow> (error + msg) list \<times> chatDAO" where
  "addMsgs dao [] = ([], dao)"
| "addMsgs dao ((m, a) # rest) =
     (case addMsg dao m a of (r, dao1) \<Rightarrow>
        (case addMsgs dao1 rest of (rs, dao2) \<Rightarrow> (r # rs, dao2)))"

text \<open>
  The ids in the message table are ids the store has assigned: none is beyond
  \<open>lastId\<close>. A store without messages satisfies this, and every operation of the
  controller keeps it (lemmas \<open>store_ok_empty\<close> to \<open>store_ok_deleteMsg\<close> below).
\<close>

definition store_ok :: "chatDAO \<Rightarrow> bool" where
  "store_ok dao = list_all (\<lambda>m. msgId m \<le> int (lastId dao)) (msgs dao)"

definition alice :: user where
  "alice = \<lparr>username = ''alice'', loggedInUntil = Date 1000\<rparr>"

definition bob :: user where
  "bob = \<lparr>username = ''bob'', loggedInUntil = Null\<rparr>"

definition carol :: user where
  "carol = \<lparr>username = ''carol'', loggedInUntil = Undefined\<rparr>"

definition store_ex :: chatDAO where
  "store_ex = \<lparr>users = [alice, bob, carol], msgs = [], lastId = 0, calls = []\<rparr>"

definition store_msgs :: chatDAO where
  "store_msgs =
     \<lparr>users = [alice],
      msgs = [\<lparr>msgId = 1, body = ''hello'', author = alice\<rparr>,
              \<lparr>msgId = 2, body = ''again'', author = alice\<rparr>],
      lastId = 2, calls = []\<rparr>"

section \<open>Properties\<close>

subsection \<open>Auxiliary facts\<close>

lemmas validators =
  isNonZeroLengthString_def isAlnumString_def isPositiveInteger_def isInstanceOf_def

lemmas dao_ops =
  dao_findUserByUsername_def dao_updateUser_def dao_createMsg_def dao_findMsgById_def
  dao_findAllMsgs_def dao_deleteMsg_def logged_def

lemmas examples = alice_def bob_def carol_def store_ex_def alnum_def

lemma duration_24h: "duration_hours 24 = 86400000"
  by (simp add: duration_hours_def)

text \<open>What \<open>isLoggedIn\<close> does once the username is valid and the lookup finds a user.\<close>

lemma isLoggedIn_found:
  assumes "name \<noteq> []" "list_all alnum name"
    and "fst (dao_findUserByUsername dao name) = u # rest"
  shows "isLoggedIn clock0 clock1 dao name =
     (if isBefore (moment clock0 (loggedInUntil u)) (Some clock1)
      then Inr None else Inr (Some u),
      logged (FindUserByUsername name) dao)"
  using assms
  by (simp add: isLoggedIn_def validators dao_findUserByUsername_def strictly_null_def)

text \<open>
  The two ways in which a user can have no expiry: with the field \<^verbatim>\<open>null\<close> the user
  is returned whatever the clock shows; with the field \<^verbatim>\<open>undefined\<close> the outcome
  depends on whether the clock has advanced between the two reads.
\<close>

lemma isLoggedIn_null_field:
  assumes "name \<noteq> []" "list_all alnum name"
    and "fst (dao_findUserByUsername dao name) = u # rest"
    and "loggedInUntil u = Null"
  shows "fst (isLoggedIn clock0 clock1 dao name) = Inr (Some u)"
  using assms by (simp add: isLoggedIn_found)

lemma isLoggedIn_undefined_field:
  assumes "name \<noteq> []" "list_all alnum name"
    and "fst (dao_findUserByUsername dao name) = u # rest"
    and "loggedInUntil u = Undefined"
  shows "fst (isLoggedIn clock0 clock1 dao name) =
     (if clock0 < clock1 then Inr None else Inr (Some u))"
  using assms by (simp add: isLoggedIn_found)

lemma find_absent:
  "name \<notin> username ` set (users dao) \<Longrightarrow>
     dao_findUserByUsername dao name = ([], logged (FindUserByUsername name) dao)"
  by (auto simp: dao_findUserByUsername_def filter_empty_conv)

text \<open>The invariant \<open>store_ok\<close> holds initially and every operation keeps it.\<close>

lemma store_ok_empty: "msgs dao = [] \<Longrightarrow> store_ok dao"
  by (simp add: store_ok_def)

lemma store_ok_login: "store_ok dao \<Longrightarrow> store_ok (snd (login now dao name))"
  by (simp add: login_def store_ok_def validators dao_ops setUsersStatusToLoggedIn_def Let_def
      split: list.splits)

lemma store_ok_isLoggedIn:
  "store_ok dao \<Longrightarrow> store_ok (snd (isLoggedIn clock0 clock1 dao name))"
  by (simp add: isLoggedIn_def store_ok_def validators dao_ops Let_def split: list.splits)

lemma store_ok_addMsg: "store_ok dao \<Longrightarrow> store_ok (snd (addMsg dao m a))"
  by (auto simp: addMsg_def store_ok_def validators dao_ops Let_def list_all_iff
      split: jsobject.splits)

lemma store_ok_findMsg: "store_ok dao \<Longrightarrow> store_ok (snd (findMsg dao i))"
  by (simp add: findMsg_def store_ok_def validators dao_ops)

lemma store_ok_findAllMsgs: "store_ok dao \<Longrightarrow> store_ok (snd (findAllMsgs dao))"
  by (simp add: findAllMsgs_def store_ok_def dao_ops)

lemma store_ok_deleteMsg: "store_ok dao \<Longrightarrow> store_ok (snd (deleteMsg dao i))"
  by (auto simp: deleteMsg_def store_ok_def validators dao_ops list_all_iff)

text \<open>Lookups by id in the message table.\<close>

lemma find_fresh:
  "list_all (\<lambda>x. msgId x \<noteq> msgId m) xs \<Longrightarrow>
     find (\<lambda>x. msgId x = msgId m) (xs @ [m]) = Some m"
  by (induction xs) simp_all

lemma find_after_delete:
  "find (\<lambda>m. msgId m = i) (filter (\<lambda>m. msgId m \<noteq> i) xs) = None"
  by (simp add: find_None_iff)

text \<open>Each call of \<open>addMsg\<close> adds one message if it succeeds and none if it fails.\<close>

lemma addMsg_msgs:
  "length (msgs (snd (addMsg dao m a))) =
     length (msgs dao) + (if isl (fst (addMsg dao m a)) then 0 else 1)"
  by (simp add: addMsg_def validators dao_ops Let_def split: jsobject.splits)

lemma addMsgs_msgs:
  "length (msgs (snd (addMsgs dao xs))) =
     length (msgs dao) + length (filter (\<lambda>r. \<not> isl r) (fst (addMsgs dao xs)))"
proof (induction xs arbitrary: dao)
  case Nil
  then show ?case by simp
next
  case (Cons x xs)
  obtain m a where x: "x = (m, a)" by (cases x)
  obtain r dao1 where s: "addMsg dao m a = (r, dao1)" by (cases "addMsg dao m a")
  obtain rs dao2 where t: "addMsgs dao1 xs = (rs, dao2)" by (cases "addMsgs dao1 xs")
  have "length (msgs dao1) = length (msgs dao) + (if isl r then 0 else 1)"
    using addMsg_msgs [of dao m a] s by simp
  moreover have "length (msgs dao2) = length (msgs dao1) + length (filter (\<lambda>r. \<not> isl r) rs)"
    using Cons.IH [of dao1] t by simp
  ultimately show ?case by (simp add: x s t)
qed

lemma addMsgs_length: "length (fst (addMsgs dao xs)) = length xs"
proof (induction xs arbitrary: dao)
  case Nil
  then show ?case by simp
next
  case (Cons x xs)
  obtain m a where x: "x = (m, a)" by (cases x)
  obtain r dao1 where s: "addMsg dao m a = (r, dao1)" by (cases "addMsg dao m a")
  obtain rs dao2 where t: "addMsgs dao1 xs = (rs, dao2)" by (cases "addMsgs dao1 xs")
  have "length rs = length xs" using Cons.IH [of dao1] t by simp
  then show ?case by (simp add: x s t)
qed

subsection \<open>Login state\<close>

text \<open>
  Claim C1, as stated: for every existing user, \<open>isLoggedIn\<close> returns the user if and only
  if the user's \<open>loggedInUntil\<close> is strictly after the wall-clock time of the check, and
  returns null when \<open>loggedInUntil\<close> equals or precedes that time. This fails where the
  two are equal: \<open>alice\<close> is logged in until millisecond 1000, the check runs at
  millisecond 1000, \<^verbatim>\<open>isBefore\<close> is false and the user is returned.
\<close>

theorem isLoggedIn_at_expiry_counterexample:
  "fst (isLoggedIn 1000 1000 store_ex ''alice'') = Inr (Some alice) \<and>
   loggedInUntil alice = Date 1000 \<and> \<not> (1000 < (1000::int))"
  by (simp add: isLoggedIn_def validators dao_ops examples strictly_null_def)

text \<open>
  Claim C1, amended: for every existing user whose \<open>loggedInUntil\<close> is a timestamp \<open>d\<close>
  (\<open>u\<close> is the first user the lookup returns for the valid username), \<open>isLoggedIn\<close>
  returns null exactly when \<open>d\<close> is strictly before the wall-clock time \<open>now\<close> of the
  check, and returns the user otherwise, that is when \<open>d\<close> is at or after \<open>now\<close>.
\<close>

theorem isLoggedIn_iff_not_expired:
  assumes "name \<noteq> []" and "list_all alnum name"
    and "fst (dao_findUserByUsername dao name) = u # rest"
    and "loggedInUntil u = Date d"
  shows "fst (isLoggedIn clock0 now dao name) = (if d < now then Inr None else Inr (Some u))"
  using assms by (simp add: isLoggedIn_found)

theorem isLoggedIn_iff_not_expired_witness:
  "fst (isLoggedIn 0 1000 store_ex ''alice'') = Inr (Some alice) \<and>
   fst (isLoggedIn 0 1001 store_ex ''alice'') = Inr None"
  using isLoggedIn_iff_not_expired [of "''alice''" store_ex alice "[]" 1000 0 1000]
    isLoggedIn_iff_not_expired [of "''alice''" store_ex alice "[]" 1000 0 1001]
  by (simp add: dao_ops examples)

text \<open>
  Claim C2: for every existing user whose \<open>loggedInUntil\<close> is absent, \<open>isLoggedIn\<close>
  returns null. The code does not do this. The source tests \<^verbatim>\<open>loginExpires === null\<close>
  on the moment object, which is never null, instead of on the field. For the field
  \<^verbatim>\<open>null\<close> the moment is invalid, \<^verbatim>\<open>isBefore\<close> is false and the user \<open>bob\<close> is
  returned; for the field \<^verbatim>\<open>undefined\<close> the moment is the current time, and the user
  \<open>carol\<close> is returned when both clock reads show the same millisecond.
\<close>

theorem isLoggedIn_absent_expiry_returns_user:
  "loggedInUntil bob = Null \<and>
   fst (isLoggedIn 0 1000 store_ex ''bob'') = Inr (Some bob) \<and>
   loggedInUntil carol = Undefined \<and>
   fst (isLoggedIn 1000 1000 store_ex ''carol'') = Inr (Some carol)"
  by (simp add: isLoggedIn_def validators dao_ops examples strictly_null_def)

text \<open>
  Claim C3: for every username that exists in the store (usernames are non-empty and
  alphanumeric in the data model; \<open>u\<close> is the first user the lookup returns),
  \<open>login\<close> returns that user with \<open>loggedInUntil\<close> set to 24 hours after the wall-clock
  time \<open>now\<close> read during the call, and persists it: the rows of that username hold
  the updated user, nothing else in the store changes, the data access object has been
  called with \<^verbatim>\<open>findUserByUsername\<close> and then \<^verbatim>\<open>updateUser\<close> of the updated user,
  and a lookup right after the call returns the updated user.
\<close>

theorem login_existing_user:
  assumes "name \<noteq> []" and "list_all alnum name"
    and "fst (dao_findUserByUsername dao name) = u # rest"
  shows "\<exists>u' dao'. login now dao name = (Inr (Some u'), dao') \<and>
      u' = u\<lparr>loggedInUntil := Date (now + 24 * 60 * 60 * 1000)\<rparr> \<and>
      users dao' = map (\<lambda>x. if username x = name then u' else x) (users dao) \<and>
      msgs dao' = msgs dao \<and> lastId dao' = lastId dao \<and>
      calls dao' = calls dao @ [FindUserByUsername name, UpdateUser u'] \<and>
      (\<exists>rest'. fst (dao_findUserByUsername dao' name) = u' # rest')"
proof -
  from assms(3) have "u \<in> set (filter (\<lambda>x. username x = name) (users dao))"
    by (simp add: dao_findUserByUsername_def)
  then have un: "username u = name" by simp
  define u' where "u' = u\<lparr>loggedInUntil := Date (now + 24 * 60 * 60 * 1000)\<rparr>"
  have un': "username u' = name" using un by (simp add: u'_def)
  define dao' where "dao' = dao_updateUser (logged (FindUserByUsername name) dao) u'"
  have run: "login now dao name = (Inr (Some u'), dao')"
    using assms
    by (simp add: login_def validators dao_findUserByUsername_def setUsersStatusToLoggedIn_def
        duration_hours_def u'_def dao'_def Let_def)
  have us: "users dao' = map (\<lambda>x. if username x = name then u' else x) (users dao)"
    by (simp add: dao'_def dao_updateUser_def logged_def un')
  have flt: "filter (\<lambda>x. username x = name) (map (\<lambda>x. if username x = name then u' else x) xs)
      = map (\<lambda>_. u') (filter (\<lambda>x. username x = name) xs)" for xs
    by (induction xs) (simp_all add: un')
  have "fst (dao_findUserByUsername dao' name) = map (\<lambda>_. u') (u # rest)"
    using assms(3) by (simp add: dao_findUserByUsername_def us flt)
  then have pers: "\<exists>rest'. fst (dao_findUserByUsername dao' name) = u' # rest'" by simp
  have rest: "msgs dao' = msgs dao \<and> lastId dao' = lastId dao \<and>
      calls dao' = calls dao @ [FindUserByUsername name, UpdateUser u']"
    by (simp add: dao'_def dao_updateUser_def logged_def)
  show ?thesis using run us pers rest u'_def by blast
qed

theorem login_existing_user_witness:
  "login 5 store_ex ''carol'' =
     (Inr (Some (carol\<lparr>loggedInUntil := Date 86400005\<rparr>)),
      store_ex\<lparr>users := [alice, bob, carol\<lparr>loggedInUntil := Date 86400005\<rparr>],
               calls := [FindUserByUsername ''carol'',
                         UpdateUser (carol\<lparr>loggedInUntil := Date 86400005\<rparr>)]\<rparr>)"
proof -
  have ok: "''carol'' \<noteq> []" "list_all alnum ''carol''"
    "fst (dao_findUserByUsername store_ex ''carol'') = carol # []"
    by (simp_all add: dao_ops examples)
  from login_existing_user [OF ok, of 5] obtain u' dao' where
    r: "login 5 store_ex ''carol'' = (Inr (Some u'), dao')"
    and u: "u' = carol\<lparr>loggedInUntil := Date (5 + 24 * 60 * 60 * 1000)\<rparr>"
    and us: "users dao' = map (\<lambda>x. if username x = ''carol'' then u' else x) (users store_ex)"
    and ms: "msgs dao' = msgs store_ex" and li: "lastId dao' = lastId store_ex"
    and cs: "calls dao' = calls store_ex @ [FindUserByUsername ''carol'', UpdateUser u']"
    by blast
  have "dao' = store_ex\<lparr>users := [alice, bob, carol\<lparr>loggedInUntil := Date 86400005\<rparr>],
               calls := [FindUserByUsername ''carol'',
                         UpdateUser (carol\<lparr>loggedInUntil := Date 86400005\<rparr>)]\<rparr>"
    using u us ms li cs by (simp add: examples)
  with r u show ?thesis by simp
qed

text \<open>
  Claim C4: for every valid (non-empty, alphanumeric) username that does not exist in the
  store, both \<open>login\<close> and \<open>isLoggedIn\<close> return null, as a result (\<open>Inr\<close>) and not
  as an error.
\<close>

theorem unknown_user_is_null:
  assumes "name \<noteq> []" and "list_all alnum name"
    and "name \<notin> username ` set (users dao)"
  shows "fst (login now dao name) = Inr None \<and>
     fst (isLoggedIn clock0 clock1 dao name) = Inr None"
  using assms by (simp add: login_def isLoggedIn_def validators find_absent)

theorem unknown_user_is_null_witness:
  "fst (login 0 store_ex ''dave'') = Inr None \<and>
   fst (isLoggedIn 0 0 store_ex ''dave'') = Inr None"
proof -
  have "''dave'' \<noteq> []" "list_all alnum ''dave''" "''dave'' \<notin> username ` set (users store_ex)"
    by (simp_all add: examples)
  then show ?thesis by (rule unknown_user_is_null)
qed

subsection \<open>Validation comes first\<close>

text \<open>
  Claim C5: for every invalid input (an empty or non-alphanumeric username to \<open>login\<close>
  or \<open>isLoggedIn\<close>, an empty message text to \<open>addMsg\<close>, an author that is not a
  \<^verbatim>\<open>UserDTO\<close> to \<open>addMsg\<close>, an id that is not positive to \<open>findMsg\<close> or
  \<open>deleteMsg\<close>) the operation ends in a validation failure, and the state of the data
  access object after it is the state before it: the store is unchanged and the call
  log has not grown, so no call reached the data access object.
\<close>

theorem invalid_input_rejected:
  "(name = [] \<or> \<not> list_all alnum name \<longrightarrow>
      login now dao name = (Inl (ValidationError ''username''), dao) \<and>
      isLoggedIn clock0 clock1 dao name = (Inl (ValidationError ''username''), dao)) \<and>
   (m = [] \<longrightarrow> addMsg dao m a = (Inl (ValidationError ''msg''), dao)) \<and>
   (a = NotUserDTO \<longrightarrow> (\<exists>v. addMsg dao m a = (Inl (ValidationError v), dao))) \<and>
   (i \<le> 0 \<longrightarrow>
      findMsg dao i = (Inl (ValidationError ''msgId''), dao) \<and>
      deleteMsg dao i = (Inl (ValidationError ''msgId''), dao))"
  by (simp add: login_def isLoggedIn_def addMsg_def findMsg_def deleteMsg_def validators)

theorem invalid_input_rejected_witness:
  "login 0 store_ex ''bad name!'' = (Inl (ValidationError ''username''), store_ex) \<and>
   isLoggedIn 0 0 store_ex ''bad name!'' = (Inl (ValidationError ''username''), store_ex) \<and>
   login 0 store_ex '''' = (Inl (ValidationError ''username''), store_ex) \<and>
   addMsg store_ex '''' (UserDTO alice) = (Inl (ValidationError ''msg''), store_ex) \<and>
   addMsg store_ex ''x'' NotUserDTO = (Inl (ValidationError ''user''), store_ex) \<and>
   findMsg store_ex (- 1) = (Inl (ValidationError ''msgId''), store_ex) \<and>
   deleteMsg store_ex (- 1) = (Inl (ValidationError ''msgId''), store_ex)"
proof -
  have bad: "\<not> list_all alnum ''bad name!''" by (simp add: alnum_def)
  have x: "addMsg store_ex ''x'' NotUserDTO = (Inl (ValidationError ''user''), store_ex)"
    by (simp add: addMsg_def validators)
  show ?thesis
    using invalid_input_rejected [of "''bad name!''" 0 store_ex 0 0 "''''" "UserDTO alice" "- 1"]
      invalid_input_rejected [of "''''" 0 store_ex 0 0 "''x''" NotUserDTO "- 1"] bad x
    by simp
qed

subsection \<open>Messages\<close>

text \<open>
  Claim C6: for every non-empty message text \<open>m\<close> and author \<open>u\<close> that is a
  \<^verbatim>\<open>UserDTO\<close>, \<open>addMsg\<close> returns a created message, and \<open>findMsg\<close> of that
  message's id right afterwards returns the same message, whose body is \<open>m\<close> and whose
  author is \<open>u\<close>. The store is one whose message ids the store itself has assigned
  (\<open>store_ok\<close>).
\<close>

theorem addMsg_then_findMsg:
  assumes "m \<noteq> []" and "store_ok dao"
  shows "\<exists>created dao1 dao2.
      addMsg dao m (UserDTO u) = (Inr created, dao1) \<and>
      findMsg dao1 (msgId created) = (Inr (Some created), dao2) \<and>
      body created = m \<and> author created = u"
proof -
  define created where "created = \<lparr>msgId = int (Suc (lastId dao)), body = m, author = u\<rparr>"
  define dao1 where "dao1 = snd (addMsg dao m (UserDTO u))"
  have add: "addMsg dao m (UserDTO u) = (Inr created, dao1)"
    using assms(1)
    by (simp add: dao1_def created_def addMsg_def validators dao_createMsg_def Let_def)
  have ms: "msgs dao1 = msgs dao @ [created]"
    using assms(1) by (simp add: dao1_def created_def addMsg_def validators dao_ops Let_def)
  have "list_all (\<lambda>x. msgId x \<noteq> msgId created) (msgs dao)"
    using assms(2) by (auto simp: store_ok_def created_def list_all_iff)
  then have "find (\<lambda>x. msgId x = msgId created) (msgs dao1) = Some created"
    unfolding ms by (rule find_fresh)
  moreover have "0 < msgId created" by (simp add: created_def)
  ultimately have "findMsg dao1 (msgId created) =
      (Inr (Some created), logged (FindMsgById (msgId created)) dao1)"
    by (simp add: findMsg_def validators dao_findMsgById_def)
  moreover have "body created = m \<and> author created = u" by (simp add: created_def)
  ultimately show ?thesis using add by blast
qed

theorem addMsg_then_findMsg_witness:
  "fst (addMsg store_msgs ''hello'' (UserDTO alice)) =
     Inr \<lparr>msgId = 3, body = ''hello'', author = alice\<rparr> \<and>
   fst (findMsg (snd (addMsg store_msgs ''hello'' (UserDTO alice))) 3) =
     Inr (Some \<lparr>msgId = 3, body = ''hello'', author = alice\<rparr>)"
proof -
  have ok: "''hello'' \<noteq> []" "store_ok store_msgs"
    by (simp_all add: store_ok_def store_msgs_def)
  from addMsg_then_findMsg [OF ok, of alice] obtain created dao1 dao2 where
    a: "addMsg store_msgs ''hello'' (UserDTO alice) = (Inr created, dao1)"
    and f: "findMsg dao1 (msgId created) = (Inr (Some created), dao2)"
    by blast
  have c: "created = \<lparr>msgId = 3, body = ''hello'', author = alice\<rparr>"
    using a by (simp add: addMsg_def validators dao_createMsg_def store_msgs_def Let_def)
  show ?thesis using a f c by simp
qed

text \<open>
  Claim C7: for every positive integer id, \<open>deleteMsg\<close> succeeds whether or not the store
  holds a message with that id, and \<open>findMsg\<close> of the id right afterwards returns null.
\<close>

theorem deleteMsg_then_findMsg:
  assumes "0 < i"
  shows "fst (deleteMsg dao i) = Inr () \<and>
     fst (findMsg (snd (deleteMsg dao i)) i) = Inr None"
  using assms
  by (simp add: deleteMsg_def findMsg_def validators dao_ops find_after_delete)

theorem deleteMsg_then_findMsg_witness:
  "fst (findMsg store_msgs 2) = Inr (Some \<lparr>msgId = 2, body = ''again'', author = alice\<rparr>) \<and>
   fst (findMsg (snd (deleteMsg store_msgs 2)) 2) = Inr None \<and>
   fst (findMsg (snd (deleteMsg store_msgs 7)) 7) = Inr None"
  using deleteMsg_then_findMsg [of 2 store_msgs] deleteMsg_then_findMsg [of 7 store_msgs]
  by (simp add: findMsg_def validators dao_ops store_msgs_def)

text \<open>
  Claim C8: \<open>findAllMsgs\<close> on a store without messages returns the empty list, and after
  N calls of \<open>addMsg\<close> on such a store, all of them successful and with no deletion in
  between, it returns exactly N messages.
\<close>

theorem findAllMsgs_count:
  assumes "msgs dao = []"
    and "list_all (\<lambda>r. \<not> isl r) (fst (addMsgs dao xs))"
  shows "fst (findAllMsgs dao) = Inr [] \<and>
     (\<exists>all. fst (findAllMsgs (snd (addMsgs dao xs))) = Inr all \<and> length all = length xs)"
proof -
  have "filter (\<lambda>r. \<not> isl r) (fst (addMsgs dao xs)) = fst (addMsgs dao xs)"
    using assms(2) by (simp add: list_all_iff)
  then have "length (msgs (snd (addMsgs dao xs))) = length xs"
    using addMsgs_msgs [of dao xs] assms(1) by (simp add: addMsgs_length)
  then show ?thesis
    using assms(1) by (simp add: findAllMsgs_def dao_findAllMsgs_def)
qed

theorem findAllMsgs_count_witness:
  "fst (findAllMsgs store_ex) = Inr [] \<and>
   fst (findAllMsgs (snd (addMsgs store_ex [(''a'', UserDTO alice), (''b'', UserDTO bob)]))) =
     Inr [\<lparr>msgId = 1, body = ''a'', author = alice\<rparr>, \<lparr>msgId = 2, body = ''b'', author = bob\<rparr>]"
proof -
  have ok: "msgs store_ex = []"
    "list_all (\<lambda>r. \<not> isl r)
       (fst (addMsgs store_ex [(''a'', UserDTO alice), (''b'', UserDTO bob)]))"
    by (simp_all add: store_ex_def addMsg_def validators dao_ops Let_def)
  have "fst (findAllMsgs (snd (addMsgs store_ex [(''a'', UserDTO alice), (''b'', UserDTO bob)]))) =
     Inr [\<lparr>msgId = 1, body = ''a'', author = alice\<rparr>, \<lparr>msgId = 2, body = ''b'', author = bob\<rparr>]"
    by (simp add: store_ex_def addMsg_def findAllMsgs_def validators dao_ops Let_def)
  with findAllMsgs_count [OF ok] show ?thesis by simp
qed

subsection \<open>Operations that do not write\<close>

text \<open>
  Claim C9: \<open>isLoggedIn\<close> performs no writes, for every username: the store after the
  call equals the store before it, and none of the calls it has made to the data access
  object is a mutating one.
\<close>

theorem isLoggedIn_read_only:
  "stored (snd (isLoggedIn clock0 clock1 dao name)) = stored dao \<and>
   (\<exists>cs. calls (snd (isLoggedIn clock0 clock1 dao name)) = calls dao @ cs \<and>
      list_all (\<lambda>c. \<not> mutating c) cs)"
proof -
  have "snd (isLoggedIn clock0 clock1 dao name) = dao \<or>
        snd (isLoggedIn clock0 clock1 dao name) = logged (FindUserByUsername name) dao"
    by (simp add: isLoggedIn_def validators dao_findUserByUsername_def Let_def
        split: list.splits)
  then show ?thesis
  proof
    assume "snd (isLoggedIn clock0 clock1 dao name) = dao"
    then show ?thesis by simp
  next
    assume "snd (isLoggedIn clock0 clock1 dao name) = logged (FindUserByUsername name) dao"
    then show ?thesis by (simp add: stored_def logged_def)
  qed
qed

theorem isLoggedIn_read_only_witness:
  "stored (snd (isLoggedIn 0 1000 store_ex ''alice'')) = stored store_ex \<and>
   calls (snd (isLoggedIn 0 1000 store_ex ''alice'')) = [FindUserByUsername ''alice'']"
proof -
  have "calls (snd (isLoggedIn 0 1000 store_ex ''alice'')) = [FindUserByUsername ''alice'']"
    by (simp add: isLoggedIn_def validators dao_ops examples strictly_null_def)
  with isLoggedIn_read_only [of 0 1000 store_ex "''alice''"] show ?thesis by simp
qed

text \<open>
  Claim C10: for every valid username that does not exist in the store, \<open>login\<close> returns
  null and performs no writes: its only call to the data access object is the lookup
  \<^verbatim>\<open>findUserByUsername\<close>, which is not a mutating call, and the store after the call
  equals the store before it.
\<close>

theorem login_unknown_user_no_writes:
  assumes "name \<noteq> []" and "list_all alnum name"
    and "name \<notin> username ` set (users dao)"
  shows "login now dao name = (Inr None, dao\<lparr>calls := calls dao @ [FindUserByUsername name]\<rparr>) \<and>
     stored (snd (login now dao name)) = stored dao \<and>
     \<not> mutating (FindUserByUsername name)"
  using assms by (simp add: login_def validators find_absent logged_def stored_def)

theorem login_unknown_user_no_writes_witness:
  "login 0 store_ex ''dave'' = (Inr None, store_ex\<lparr>calls := [FindUserByUsername ''dave'']\<rparr>) \<and>
   stored (snd (login 0 store_ex ''dave'')) = stored store_ex"
proof -
  have ok: "''dave'' \<noteq> []" "list_all alnum ''dave''" "''dave'' \<notin> username ` set (users store_ex)"
    by (simp_all add: examples)
  have "calls store_ex = []" by (simp add: store_ex_def)
  with login_unknown_user_no_writes [OF ok, of 0] show ?thesis by (simp add: stored_def)
qed

end
